theory Spec2Isabelle
  imports Complex_Main "HOL-Library.Sublist" "HOL-Library.Product_Lexorder"
begin

section \<open>Python values, truthiness and exceptions\<close>

text \<open>
  The helpers of \<^verbatim>\<open>streamlit_app.py\<close> work on whatever \<^verbatim>\<open>json.loads\<close> or the
  warehouse cursor hands them, so the model has one type of dynamically typed values.
  A \<^verbatim>\<open>str\<close> is a \<^typ>\<open>string\<close> (one \<^typ>\<open>char\<close> per character), a \<^verbatim>\<open>dict\<close> an
  association list in insertion order whose keys are strings (as every JSON object's
  are), a \<^verbatim>\<open>float\<close> a finite real number.
\<close>

datatype pyval =
    PNone
  | PBool bool
  | PInt int
  | PFloat real
  | PStr string
  | PList "pyval list"
  | PDict "(string \<times> pyval) list"

text \<open>Every exception carries the text that \<^verbatim>\<open>str(e)\<close> gives.\<close>

datatype error =
    JSONDecodeError string
  | AttributeError string
  | TypeError string
  | ValueError string
  | OtherError string

fun exc_text :: "error \<Rightarrow> string" where
  "exc_text (JSONDecodeError m) = m"
| "exc_text (AttributeError m) = m"
| "exc_text (TypeError m) = m"
| "exc_text (ValueError m) = m"
| "exc_text (OtherError m) = m"

text \<open>Sequencing of two steps of which the first may raise.\<close>

fun seq :: "error + 'a \<Rightarrow> ('a \<Rightarrow> error + 'b) \<Rightarrow> error + 'b" where
  "seq (Inl e) f = Inl e"
| "seq (Inr x) f = f x"

fun truthy :: "pyval \<Rightarrow> bool" where
  "truthy PNone = False"
| "truthy (PBool b) = b"
| "truthy (PInt i) = (i \<noteq> 0)"
| "truthy (PFloat x) = (x \<noteq> 0)"
| "truthy (PStr s) = (s \<noteq> [])"
| "truthy (PList xs) = (xs \<noteq> [])"
| "truthy (PDict kvs) = (kvs \<noteq> [])"

text \<open>\<^verbatim>\<open>a or b\<close>, for operands whose evaluation cannot raise.\<close>

definition py_or :: "pyval \<Rightarrow> pyval \<Rightarrow> pyval" where
  "py_or a b = (if truthy a then a else b)"

fun type_name :: "pyval \<Rightarrow> string" where
  "type_name PNone = ''NoneType''"
| "type_name (PBool b) = ''bool''"
| "type_name (PInt i) = ''int''"
| "type_name (PFloat x) = ''float''"
| "type_name (PStr s) = ''str''"
| "type_name (PList xs) = ''list''"
| "type_name (PDict kvs) = ''dict''"

definition apos :: string where
  "apos = [CHR 0x27]"

definition no_attribute :: "pyval \<Rightarrow> string \<Rightarrow> error" where
  "no_attribute v a =
     AttributeError (apos @ type_name v @ apos @ '' object has no attribute '' @ apos @ a @ apos)"

fun is_dict :: "pyval \<Rightarrow> bool" where
  "is_dict (PDict kvs) = True"
| "is_dict v = False"

text \<open>\<^verbatim>\<open>d.get(k)\<close> on a dict: the value, or \<^verbatim>\<open>None\<close> when the key is missing.\<close>

definition dict_get :: "(string \<times> pyval) list \<Rightarrow> string \<Rightarrow> pyval" where
  "dict_get kvs k = (case map_of kvs k of None \<Rightarrow> PNone | Some v \<Rightarrow> v)"

text \<open>\<^verbatim>\<open>v.get(k)\<close> on any value: only a dict has the method.\<close>

fun py_get :: "pyval \<Rightarrow> string \<Rightarrow> error + pyval" where
  "py_get (PDict kvs) k = Inr (dict_get kvs k)"
| "py_get v k = Inl (no_attribute v ''get'')"

text \<open>\<^verbatim>\<open>for h in v\<close>: the elements a loop over \<^verbatim>\<open>v\<close> visits.\<close>

fun py_iter :: "pyval \<Rightarrow> error + pyval list" where
  "py_iter (PList xs) = Inr xs"
| "py_iter (PStr s) = Inr (map (\<lambda>c. PStr [c]) s)"
| "py_iter (PDict kvs) = Inr (map (\<lambda>kv. PStr (fst kv)) kvs)"
| "py_iter v = Inl (TypeError (apos @ type_name v @ apos @ '' object is not iterable''))"

section \<open>The library functions the helpers call\<close>

text \<open>
  A calendar date is its year, month and day; \<^verbatim>\<open>datetime.date\<close> compares them in
  this order, which is the lexicographic order of the triple.
\<close>

type_synonym date = "nat \<times> nat \<times> nat"

text \<open>
  \<^verbatim>\<open>json.loads\<close>, \<^verbatim>\<open>json.dumps(_, indent=2)\<close>, \<^verbatim>\<open>date.fromisoformat\<close>, \<^verbatim>\<open>str.lower\<close>
  and \<^verbatim>\<open>str()\<close> of a value that is not a string belong to the Python library, not to
  the application. The model takes them as parameters: each theorem below holds for
  every library, the interpreter's included.
\<close>

record pylib =
  json_loads :: "string \<Rightarrow> error + pyval"
  json_dumps :: "pyval \<Rightarrow> error + string"
  fromisoformat :: "string \<Rightarrow> error + date"
  str_lower :: "string \<Rightarrow> string"
  py_str :: "pyval \<Rightarrow> string"

text \<open>\<^verbatim>\<open>str(v)\<close>: a string is its own text.\<close>

fun text_of :: "pylib \<Rightarrow> pyval \<Rightarrow> string" where
  "text_of lib (PStr s) = s"
| "text_of lib v = py_str lib v"

text \<open>\<^verbatim>\<open>v.lower()\<close>: only a string has the method.\<close>

fun py_lower :: "pylib \<Rightarrow> pyval \<Rightarrow> error + string" where
  "py_lower lib (PStr s) = Inr (str_lower lib s)"
| "py_lower lib v = Inl (no_attribute v ''lower'')"

text \<open>
  \<^verbatim>\<open>json.loads(raw) if isinstance(raw, str) else raw\<close>, the decoding step of both
  \<^verbatim>\<open>run_search\<close> (line 92) and \<^verbatim>\<open>agent_answer\<close> (line 128).
\<close>

fun loads_if_str :: "pylib \<Rightarrow> pyval \<Rightarrow> error + pyval" where
  "loads_if_str lib (PStr s) = json_loads lib s"
| "loads_if_str lib v = Inr v"

section \<open>Search helpers\<close>

text \<open>
  \<^verbatim>\<open>_extract_hit\<close> (lines 62-75). The two \<^verbatim>\<open>or\<close> chains choose by truthiness, the
  second one calls \<^verbatim>\<open>hit.get("scores")\<close> only when \<^verbatim>\<open>hit.get("@scores")\<close> is falsy, and
  the dict literal reads its eight values in the order written.
\<close>

definition hit_keys :: "string list" where
  "hit_keys = [''DOC_ID'', ''FILENAME'', ''RELATIVE_PATH'', ''PERSON'', ''DOC_TYPE'', ''DOC_DATE'',
               ''score_sem'', ''score_text'']"

definition extract_hit :: "pyval \<Rightarrow> error + pyval" where
  "extract_hit hit =
     seq (py_get hit ''row'') (\<lambda>r.
     let row = py_or r (py_or hit (PDict [])) in
     seq (py_get hit ''@scores'') (\<lambda>s1.
     seq (if truthy s1 then Inr s1
          else seq (py_get hit ''scores'') (\<lambda>s2. Inr (py_or s2 (PDict [])))) (\<lambda>scores.
     seq (py_get row ''DOC_ID'') (\<lambda>v1.
     seq (py_get row ''FILENAME'') (\<lambda>v2.
     seq (py_get row ''RELATIVE_PATH'') (\<lambda>v3.
     seq (py_get row ''PERSON'') (\<lambda>v4.
     seq (py_get row ''DOC_TYPE'') (\<lambda>v5.
     seq (py_get row ''DOC_DATE'') (\<lambda>v6.
     seq (py_get scores ''cosine_similarity'') (\<lambda>v7.
     seq (py_get scores ''text_match'') (\<lambda>v8.
     Inr (PDict [(''DOC_ID'', v1), (''FILENAME'', v2), (''RELATIVE_PATH'', v3),
                 (''PERSON'', v4), (''DOC_TYPE'', v5), (''DOC_DATE'', v6),
                 (''score_sem'', v7), (''score_text'', v8)]))))))))))))"

text \<open>The comprehension \<^verbatim>\<open>[_extract_hit(h) for h in results]\<close>: the first raise ends it.\<close>

fun extract_all :: "pyval list \<Rightarrow> error + pyval list" where
  "extract_all [] = Inr []"
| "extract_all (h # hs) =
     seq (extract_hit h) (\<lambda>x. seq (extract_all hs) (\<lambda>xs. Inr (x # xs)))"

text \<open>
  \<^verbatim>\<open>run_search\<close> (lines 77-94), from the point where the warehouse has answered: \<^verbatim>\<open>r\<close> is
  the list of rows that \<^verbatim>\<open>collect()\<close> returned, each row given by the value of its
  \<^verbatim>\<open>RESULT\<close> column. Nothing in the function catches an exception.
\<close>

definition run_search :: "pylib \<Rightarrow> pyval list \<Rightarrow> error + pyval list" where
  "run_search lib r =
     (case r of
        [] \<Rightarrow> Inr []
      | raw # _ \<Rightarrow>
          seq (loads_if_str lib raw) (\<lambda>data.
          seq (py_get (py_or data (PDict [])) ''results'') (\<lambda>res.
          seq (py_iter (py_or res (PList []))) extract_all)))"

subsection \<open>The local filter\<close>

text \<open>
  \<^verbatim>\<open>to_date\<close> (lines 98-101): a falsy value gives \<^verbatim>\<open>None\<close>, and the bare \<^verbatim>\<open>except\<close>
  turns every failure of the parse into \<^verbatim>\<open>None\<close>.
\<close>

definition to_date :: "pylib \<Rightarrow> pyval \<Rightarrow> date option" where
  "to_date lib s =
     (if truthy s
      then (case fromisoformat lib (take 10 (text_of lib s)) of
              Inl e \<Rightarrow> None
            | Inr d \<Rightarrow> Some d)
      else None)"

text \<open>\<^verbatim>\<open>(r.get(key) or "").lower() != wanted.lower()\<close>\<close>

definition field_differs :: "pylib \<Rightarrow> pyval \<Rightarrow> string \<Rightarrow> string \<Rightarrow> error + bool" where
  "field_differs lib r key wanted =
     seq (py_get r key) (\<lambda>v.
     seq (py_lower lib (py_or v (PStr ''''))) (\<lambda>s.
     Inr (s \<noteq> str_lower lib wanted)))"

text \<open>
  The guard \<^verbatim>\<open>if person and ...\<close> (and the one on \<^verbatim>\<open>doc_type\<close>): a criterion that is
  \<^verbatim>\<open>None\<close> or the empty string tests nothing.
\<close>

fun text_skips :: "pylib \<Rightarrow> pyval \<Rightarrow> string \<Rightarrow> string option \<Rightarrow> error + bool" where
  "text_skips lib r key None = Inr False"
| "text_skips lib r key (Some wanted) =
     (if wanted = [] then Inr False else field_differs lib r key wanted)"

text \<open>
  \<^verbatim>\<open>d_from and (not dd or dd < d_from)\<close> and \<^verbatim>\<open>d_to and (not dd or dd > d_to)\<close>: a date
  object is always truthy, so \<^verbatim>\<open>not dd\<close> holds exactly when the parse gave \<^verbatim>\<open>None\<close>.
\<close>

fun before_from :: "date option \<Rightarrow> date option \<Rightarrow> bool" where
  "before_from None dd = False"
| "before_from (Some f) None = True"
| "before_from (Some f) (Some d) = (d < f)"

fun after_to :: "date option \<Rightarrow> date option \<Rightarrow> bool" where
  "after_to None dd = False"
| "after_to (Some t) None = True"
| "after_to (Some t) (Some d) = (d > t)"

fun date_skips :: "pylib \<Rightarrow> pyval \<Rightarrow> date option \<Rightarrow> date option \<Rightarrow> error + bool" where
  "date_skips lib r None None = Inr False"
| "date_skips lib r d_from d_to =
     seq (py_get r ''DOC_DATE'') (\<lambda>v.
     let dd = to_date lib v in
     Inr (if before_from d_from dd then True else after_to d_to dd))"

text \<open>The body of the loop (lines 105-112): does the row reach a \<^verbatim>\<open>continue\<close>?\<close>

definition skips ::
  "pylib \<Rightarrow> pyval \<Rightarrow> string option \<Rightarrow> string option \<Rightarrow> date option \<Rightarrow> date option \<Rightarrow> error + bool"
where
  "skips lib r person doc_type d_from d_to =
     seq (text_skips lib r ''PERSON'' person) (\<lambda>c1.
     if c1 then Inr True
     else seq (text_skips lib r ''DOC_TYPE'' doc_type) (\<lambda>c2.
          if c2 then Inr True
          else date_skips lib r d_from d_to))"

text \<open>\<^verbatim>\<open>filter_hits_locally\<close> (lines 96-114): the rows not skipped, in the order met.\<close>

fun filter_hits_locally ::
  "pylib \<Rightarrow> pyval list \<Rightarrow> string option \<Rightarrow> string option \<Rightarrow> date option \<Rightarrow> date option
     \<Rightarrow> error + pyval list"
where
  "filter_hits_locally lib [] person doc_type d_from d_to = Inr []"
| "filter_hits_locally lib (r # rows) person doc_type d_from d_to =
     seq (skips lib r person doc_type d_from d_to) (\<lambda>skip.
     seq (filter_hits_locally lib rows person doc_type d_from d_to) (\<lambda>out.
     Inr (if skip then out else r # out)))"

section \<open>Agent helper\<close>

text \<open>The loop \<^verbatim>\<open>for m in reversed(msgs)\<close> (lines 135-137), given the reversed list.\<close>

fun scan :: "pyval list \<Rightarrow> pyval option" where
  "scan [] = None"
| "scan (PDict kvs # ms) =
     (if truthy (dict_get kvs ''content'') then Some (dict_get kvs ''content'') else scan ms)"
| "scan (m # ms) = scan ms"

text \<open>
  Lines 129-137: what the \<^verbatim>\<open>isinstance(data, dict)\<close> block returns, \<^verbatim>\<open>None\<close> when
  control leaves it for the final \<^verbatim>\<open>json.dumps\<close>.
\<close>

fun message_content :: "pyval \<Rightarrow> pyval option" where
  "message_content (PDict m) =
     (if truthy (dict_get m ''content'') then Some (dict_get m ''content'') else None)"
| "message_content v = None"

fun from_dict :: "pyval \<Rightarrow> pyval option" where
  "from_dict (PDict d) =
     (case message_content (dict_get d ''message'') of
        Some c \<Rightarrow> Some c
      | None \<Rightarrow>
          (case py_or (dict_get d ''messages'') (py_or (dict_get d ''output'') (PList [])) of
             PList msgs \<Rightarrow> scan (rev msgs)
           | _ \<Rightarrow> None))"
| "from_dict v = None"

text \<open>
  The body of the \<^verbatim>\<open>try\<close> (lines 123-138). \<^verbatim>\<open>call\<close> is the outcome of the agent query:
  the exception it raised, or the rows it returned, each row given by the value of its
  \<^verbatim>\<open>R\<close> column.
\<close>

definition agent_try :: "pylib \<Rightarrow> error + pyval list \<Rightarrow> error + pyval" where
  "agent_try lib call =
     seq call (\<lambda>res.
     case res of
       [] \<Rightarrow> Inr (PStr ''Agent returned no result.'')
     | obj # _ \<Rightarrow>
         seq (loads_if_str lib obj) (\<lambda>data.
         case from_dict data of
           Some c \<Rightarrow> Inr c
         | None \<Rightarrow> seq (json_dumps lib data) (\<lambda>s. Inr (PStr s))))"

text \<open>\<^verbatim>\<open>agent_answer\<close> (lines 117-140): the handler turns every exception into text.\<close>

definition agent_answer :: "pylib \<Rightarrow> error + pyval list \<Rightarrow> pyval" where
  "agent_answer lib call =
     (case agent_try lib call of
        Inl e \<Rightarrow> PStr (''Agent call failed: '' @ exc_text e)
      | Inr v \<Rightarrow> v)"

section \<open>A sample library for concrete runs\<close>

text \<open>
  The examples below run the helpers on concrete payloads and so need one concrete
  library. \<open>iso_date\<close> reads the calendar form \<^verbatim>\<open>YYYY-MM-DD\<close>, which every version of
  \<^verbatim>\<open>date.fromisoformat\<close> accepts, and \<open>ascii_lower\<close> lowers the letters A to Z. The
  tables for \<^verbatim>\<open>json.loads\<close>, \<^verbatim>\<open>json.dumps(_, indent=2)\<close> and \<^verbatim>\<open>str\<close> hold Python's
  answers for the arguments the examples pass; any other argument gets a placeholder
  that no example reads.
\<close>

definition digit :: "char \<Rightarrow> nat option" where
  "digit c = (let n = (of_char c :: nat) in if 48 \<le> n \<and> n \<le> 57 then Some (n - 48) else None)"

fun number :: "string \<Rightarrow> nat \<Rightarrow> nat option" where
  "number [] acc = Some acc"
| "number (c # cs) acc = (case digit c of None \<Rightarrow> None | Some d \<Rightarrow> number cs (10 * acc + d))"

definition leap_year :: "nat \<Rightarrow> bool" where
  "leap_year y = (y mod 4 = 0 \<and> (y mod 100 \<noteq> 0 \<or> y mod 400 = 0))"

definition days_in_month :: "nat \<Rightarrow> nat \<Rightarrow> nat" where
  "days_in_month y m =
     (if m = 2 then (if leap_year y then 29 else 28)
      else if m = 4 \<or> m = 6 \<or> m = 9 \<or> m = 11 then 30 else 31)"

definition invalid_isoformat :: "string \<Rightarrow> error" where
  "invalid_isoformat s = ValueError (''Invalid isoformat string: '' @ apos @ s @ apos)"

definition iso_date :: "string \<Rightarrow> error + date" where
  "iso_date s =
     (if length s = 10 \<and> s ! 4 = CHR ''-'' \<and> s ! 7 = CHR ''-''
      then (case (number (take 4 s) 0, number (take 2 (drop 5 s)) 0, number (drop 8 s) 0) of
              (Some y, Some m, Some d) \<Rightarrow>
                (if 1 \<le> y \<and> 1 \<le> m \<and> m \<le> 12 \<and> 1 \<le> d \<and> d \<le> days_in_month y m
                 then Inr (y, m, d)
                 else Inl (invalid_isoformat s))
            | _ \<Rightarrow> Inl (invalid_isoformat s))
      else Inl (invalid_isoformat s))"

definition lower_char :: "char \<Rightarrow> char" where
  "lower_char c =
     (case map_of (zip ''ABCDEFGHIJKLMNOPQRSTUVWXYZ'' ''abcdefghijklmnopqrstuvwxyz'') c of
        None \<Rightarrow> c
      | Some l \<Rightarrow> l)"

definition ascii_lower :: "string \<Rightarrow> string" where
  "ascii_lower s = map lower_char s"

definition sample_loads :: "string \<Rightarrow> error + pyval" where
  "sample_loads s =
     (if s = ''null'' then Inr PNone
      else if s = ''{}'' then Inr (PDict [])
      else if s = ''[]'' then Inr (PList [])
      else if s = ''not json''
        then Inl (JSONDecodeError ''Expecting value: line 1 column 1 (char 0)'')
      else Inl (OtherError ''outside the sample table''))"

definition sample_dumps :: "pyval \<Rightarrow> error + string" where
  "sample_dumps v =
     (if v = PNone then Inr ''null''
      else if v = PList [] then Inr ''[]''
      else if v = PDict [] then Inr ''{}''
      else if v = PStr ''not json'' then Inr ([CHR 0x22] @ ''not json'' @ [CHR 0x22])
      else Inl (OtherError ''outside the sample table''))"

definition sample_str :: "pyval \<Rightarrow> string" where
  "sample_str v =
     (if v = PNone then ''None''
      else if v = PBool True then ''True''
      else if v = PBool False then ''False''
      else ''outside the sample table'')"

definition sample_lib :: pylib where
  "sample_lib =
     \<lparr>json_loads = sample_loads, json_dumps = sample_dumps, fromisoformat = iso_date,
      str_lower = ascii_lower, py_str = sample_str\<rparr>"

section \<open>Shapes and readings used in the statements\<close>

text \<open>\<open>field v k\<close> is the value under \<open>k\<close> when \<open>v\<close> is a dict that has the key, else \<^verbatim>\<open>None\<close>.\<close>

fun field :: "pyval \<Rightarrow> string \<Rightarrow> pyval" where
  "field (PDict kvs) k = dict_get kvs k"
| "field v k = PNone"

fun is_str :: "pyval \<Rightarrow> bool" where
  "is_str (PStr s) = True"
| "is_str v = False"

text \<open>A sub-object that \<^verbatim>\<open>_extract_hit\<close> can read: a dict, or a falsy value it replaces.\<close>

definition sub_ok :: "pyval \<Rightarrow> bool" where
  "sub_ok v = (is_dict v \<or> \<not> truthy v)"

text \<open>
  A mapping-shaped element of \<^verbatim>\<open>results\<close>: a dict whose \<^verbatim>\<open>row\<close> and whose \<^verbatim>\<open>@scores\<close> (or,
  when that is falsy, \<^verbatim>\<open>scores\<close>) are sub-objects of this kind. Which keys it has is free.
\<close>

fun hit_shaped :: "pyval \<Rightarrow> bool" where
  "hit_shaped (PDict h) =
     (sub_ok (dict_get h ''row'') \<and>
      (if truthy (dict_get h ''@scores'') then is_dict (dict_get h ''@scores'')
       else sub_ok (dict_get h ''scores'')))"
| "hit_shaped v = False"

text \<open>An emitted record has exactly the eight keys of \<open>hit_keys\<close>, in that order.\<close>

fun has_hit_keys :: "pyval \<Rightarrow> bool" where
  "has_hit_keys (PDict kvs) = (map fst kvs = hit_keys)"
| "has_hit_keys v = False"

text \<open>
  Where \<^verbatim>\<open>_extract_hit\<close> reads the six document fields and the two scores: the \<^verbatim>\<open>row\<close>
  value when it is truthy, else the element; the \<^verbatim>\<open>@scores\<close> value when it is truthy,
  else the \<^verbatim>\<open>scores\<close> value when that is truthy, else an empty dict.
\<close>

definition row_source :: "(string \<times> pyval) list \<Rightarrow> pyval" where
  "row_source h = (if truthy (dict_get h ''row'') then dict_get h ''row'' else PDict h)"

definition scores_source :: "(string \<times> pyval) list \<Rightarrow> pyval" where
  "scores_source h =
     (if truthy (dict_get h ''@scores'') then dict_get h ''@scores''
      else if truthy (dict_get h ''scores'') then dict_get h ''scores''
      else PDict [])"

text \<open>The record built from a row object and a scores object.\<close>

definition emitted :: "pyval \<Rightarrow> pyval \<Rightarrow> pyval" where
  "emitted row scores =
     PDict [(''DOC_ID'', field row ''DOC_ID''), (''FILENAME'', field row ''FILENAME''),
            (''RELATIVE_PATH'', field row ''RELATIVE_PATH''), (''PERSON'', field row ''PERSON''),
            (''DOC_TYPE'', field row ''DOC_TYPE''), (''DOC_DATE'', field row ''DOC_DATE''),
            (''score_sem'', field scores ''cosine_similarity''),
            (''score_text'', field scores ''text_match'')]"

text \<open>
  The same two choices read by the presence of the key alone: the \<^verbatim>\<open>row\<close> value when the
  key is present, else the element; the \<^verbatim>\<open>@scores\<close> value when that key is present, else
  the \<^verbatim>\<open>scores\<close> value when present, else an empty dict.
\<close>

definition row_if_present :: "(string \<times> pyval) list \<Rightarrow> pyval" where
  "row_if_present h = (case map_of h ''row'' of Some r \<Rightarrow> r | None \<Rightarrow> PDict h)"

definition scores_if_present :: "(string \<times> pyval) list \<Rightarrow> pyval" where
  "scores_if_present h =
     (case map_of h ''@scores'' of
        Some a \<Rightarrow> a
      | None \<Rightarrow> (case map_of h ''scores'' of Some s \<Rightarrow> s | None \<Rightarrow> PDict []))"

text \<open>Three elements of a \<^verbatim>\<open>results\<close> sequence, the first and the last alike.\<close>

definition example_hits :: "pyval list" where
  "example_hits =
     [PDict [(''row'', PDict [(''DOC_ID'', PInt 1), (''PERSON'', PStr ''Bob'')])],
      PDict [(''DOC_ID'', PInt 2), (''@scores'', PDict [(''text_match'', PInt 3)])],
      PDict [(''row'', PDict [(''DOC_ID'', PInt 1), (''PERSON'', PStr ''Bob'')])]]"

text \<open>
  An element that wraps its fields in \<^verbatim>\<open>row\<close> and also carries a stray \<^verbatim>\<open>DOC_ID\<close> and a
  \<^verbatim>\<open>scores\<close> object; and the record \<^verbatim>\<open>_extract_hit\<close> builds from it.
\<close>

definition wrapped_hit :: "(string \<times> pyval) list" where
  "wrapped_hit =
     [(''row'', PDict [(''DOC_ID'', PInt 1), (''PERSON'', PStr ''Bob'')]),
      (''DOC_ID'', PInt 9),
      (''scores'', PDict [(''text_match'', PInt 3)])]"

definition wrapped_record :: pyval where
  "wrapped_record =
     PDict [(''DOC_ID'', PInt 1), (''FILENAME'', PNone), (''RELATIVE_PATH'', PNone),
            (''PERSON'', PStr ''Bob''), (''DOC_TYPE'', PNone), (''DOC_DATE'', PNone),
            (''score_sem'', PNone), (''score_text'', PInt 3)]"

text \<open>An element whose \<^verbatim>\<open>row\<close> is present but empty, and one whose \<^verbatim>\<open>@scores\<close> is.\<close>

definition empty_row_hit :: "(string \<times> pyval) list" where
  "empty_row_hit = [(''row'', PDict []), (''DOC_ID'', PInt 7)]"

definition empty_scores_hit :: "(string \<times> pyval) list" where
  "empty_scores_hit = [(''@scores'', PDict []), (''scores'', PDict [(''text_match'', PInt 1)])]"

subsection \<open>Hits and criteria of the local filter\<close>

text \<open>
  A search hit as the data model has it: a dict whose \<^verbatim>\<open>PERSON\<close>, \<^verbatim>\<open>DOC_TYPE\<close> and
  \<^verbatim>\<open>DOC_DATE\<close> are each a string, null or absent.
\<close>

fun str_or_none :: "pyval \<Rightarrow> bool" where
  "str_or_none PNone = True"
| "str_or_none (PStr s) = True"
| "str_or_none v = False"

fun search_hit :: "pyval \<Rightarrow> bool" where
  "search_hit (PDict h) =
     (str_or_none (dict_get h ''PERSON'') \<and> str_or_none (dict_get h ''DOC_TYPE'') \<and>
      str_or_none (dict_get h ''DOC_DATE''))"
| "search_hit v = False"

text \<open>
  A text criterion on a field value: no criterion passes; a criterion passes on a string
  equal to it up to case, and fails on an absent field.
\<close>

fun text_passes :: "pylib \<Rightarrow> string option \<Rightarrow> pyval \<Rightarrow> bool" where
  "text_passes lib None v = True"
| "text_passes lib (Some wanted) (PStr s) = (str_lower lib s = str_lower lib wanted)"
| "text_passes lib (Some wanted) v = False"

text \<open>
  The date of a hit: the first ten characters of its \<^verbatim>\<open>DOC_DATE\<close> read as an ISO calendar
  date; none when the field is absent, null, empty or does not parse.
\<close>

definition hit_date :: "pylib \<Rightarrow> pyval \<Rightarrow> date option" where
  "hit_date lib r =
     (case field r ''DOC_DATE'' of
        PStr s \<Rightarrow>
          (if s = [] then None
           else (case fromisoformat lib (take 10 s) of Inl e \<Rightarrow> None | Inr d \<Rightarrow> Some d))
      | _ \<Rightarrow> None)"

text \<open>
  The date range: not checked when both bounds are absent; otherwise a hit without a date
  fails, and a date passes when it lies within the bounds given, the bounds included.
\<close>

fun date_passes :: "date option \<Rightarrow> date option \<Rightarrow> date option \<Rightarrow> bool" where
  "date_passes None None dd = True"
| "date_passes d_from d_to None = False"
| "date_passes d_from d_to (Some d) =
     ((case d_from of None \<Rightarrow> True | Some f \<Rightarrow> f \<le> d) \<and>
      (case d_to of None \<Rightarrow> True | Some t \<Rightarrow> d \<le> t))"

text \<open>A hit passes when every criterion does; a criterion that is \<^verbatim>\<open>None\<close> is inactive.\<close>

definition passes ::
  "pylib \<Rightarrow> string option \<Rightarrow> string option \<Rightarrow> date option \<Rightarrow> date option \<Rightarrow> pyval \<Rightarrow> bool"
where
  "passes lib person doc_type d_from d_to r =
     (text_passes lib person (field r ''PERSON'') \<and>
      text_passes lib doc_type (field r ''DOC_TYPE'') \<and>
      date_passes d_from d_to (hit_date lib r))"

text \<open>The text criterion the code acts on: the empty string is inactive as \<^verbatim>\<open>None\<close> is.\<close>

fun active :: "string option \<Rightarrow> string option" where
  "active None = None"
| "active (Some wanted) = (if wanted = [] then None else Some wanted)"

text \<open>Hits for the examples.\<close>

definition alice_hit :: pyval where
  "alice_hit = PDict [(''DOC_ID'', PInt 1), (''PERSON'', PStr ''Alice''),
                      (''DOC_TYPE'', PStr ''invoice''), (''DOC_DATE'', PStr ''2025-02-15T10:00:00'')]"

definition bob_hit :: pyval where
  "bob_hit = PDict [(''DOC_ID'', PInt 2), (''PERSON'', PStr ''Bob''),
                    (''DOC_TYPE'', PStr ''Invoice''), (''DOC_DATE'', PStr ''2025-03-01'')]"

definition undated_hit :: pyval where
  "undated_hit = PDict [(''DOC_ID'', PInt 3), (''PERSON'', PStr ''ALICE''), (''DOC_DATE'', PNone)]"

subsection \<open>Readings of the agent payload\<close>

text \<open>An element, or a \<^verbatim>\<open>message\<close>, that is an object with non-empty (truthy) \<^verbatim>\<open>content\<close>.\<close>

fun has_content :: "pyval \<Rightarrow> bool" where
  "has_content (PDict m) = truthy (dict_get m ''content'')"
| "has_content v = False"

text \<open>
  The candidate sequence the code scans: the \<^verbatim>\<open>messages\<close> value when it is truthy, else
  the \<^verbatim>\<open>output\<close> value when that is truthy, else an empty list.
\<close>

definition candidates :: "(string \<times> pyval) list \<Rightarrow> pyval" where
  "candidates d =
     (if truthy (dict_get d ''messages'') then dict_get d ''messages''
      else if truthy (dict_get d ''output'') then dict_get d ''output''
      else PList [])"

text \<open>The candidate sequence read by presence: \<^verbatim>\<open>messages\<close> if present, else \<^verbatim>\<open>output\<close>.\<close>

definition candidates_if_present :: "(string \<times> pyval) list \<Rightarrow> pyval" where
  "candidates_if_present d =
     (case map_of d ''messages'' of Some v \<Rightarrow> v | None \<Rightarrow> dict_get d ''output'')"

text \<open>
  Scanning a sequence from its end toward its start for the first element with non-empty
  content; nothing when the value is no sequence or no element has content.
\<close>

fun last_content :: "pyval \<Rightarrow> pyval option" where
  "last_content (PList msgs) =
     (case find has_content (rev msgs) of
        None \<Rightarrow> None
      | Some m \<Rightarrow> Some (field m ''content''))"
| "last_content v = None"

text \<open>
  The last rule: the decoded value as indented JSON text; a value that \<^verbatim>\<open>json.dumps\<close>
  cannot serialize ends in the handler like any other failure.
\<close>

definition fallback :: "pylib \<Rightarrow> pyval \<Rightarrow> pyval" where
  "fallback lib data =
     (case json_dumps lib data of
        Inl e \<Rightarrow> PStr (''Agent call failed: '' @ exc_text e)
      | Inr s \<Rightarrow> PStr s)"

text \<open>Agent payloads for the examples.\<close>

definition three_turns :: "(string \<times> pyval) list" where
  "three_turns =
     [(''messages'', PList [PDict [(''content'', PStr ''A'')],
                            PDict [(''content'', PStr [])],
                            PDict [(''content'', PStr ''B'')]])]"

definition empty_messages :: "(string \<times> pyval) list" where
  "empty_messages =
     [(''messages'', PList []), (''output'', PList [PDict [(''content'', PStr ''X'')]])]"

definition block_content :: pyval where
  "block_content =
     PList [PDict [(''type'', PStr ''text''), (''text'', PStr ''There are 42 documents.'')]]"

definition block_message :: pyval where
  "block_message = PDict [(''message'', PDict [(''content'', block_content)])]"

section \<open>Auxiliary facts\<close>

lemma seq_Inr_iff: "seq m f = Inr y \<longleftrightarrow> (\<exists>x. m = Inr x \<and> f x = Inr y)"
  by (cases m) simp_all

lemma py_get_Inr_iff: "py_get v k = Inr x \<longleftrightarrow> (\<exists>kvs. v = PDict kvs \<and> x = dict_get kvs k)"
  by (cases v) auto

lemma is_dict_iff: "is_dict v \<longleftrightarrow> (\<exists>kvs. v = PDict kvs)"
  by (cases v) auto

lemma py_or_dict_empty: "py_or (PDict d) (PDict []) = PDict d"
  by (cases d) (simp_all add: py_or_def)

subsection \<open>What \<open>extract_hit\<close> returns\<close>

lemma extract_hit_has_keys: "extract_hit h = Inr out \<Longrightarrow> has_hit_keys out"
  unfolding extract_hit_def Let_def
  by (auto simp: seq_Inr_iff hit_keys_def)

lemma extract_all_has_keys: "extract_all hs = Inr outs \<Longrightarrow> list_all has_hit_keys outs"
  by (induction hs arbitrary: outs) (auto simp: seq_Inr_iff extract_hit_has_keys)

lemma extract_hit_shaped:
  assumes "hit_shaped (PDict h)"
  shows "extract_hit (PDict h) = Inr (emitted (row_source h) (scores_source h))"
proof -
  from assms have row: "sub_ok (dict_get h ''row'')"
    by simp
  have "\<exists>rd. py_or (dict_get h ''row'') (py_or (PDict h) (PDict [])) = PDict rd
          \<and> row_source h = PDict rd"
    using row by (cases "dict_get h ''row''") (auto simp: sub_ok_def py_or_def row_source_def)
  then obtain rd where rd:
    "py_or (dict_get h ''row'') (py_or (PDict h) (PDict [])) = PDict rd" "row_source h = PDict rd"
    by blast
  have "\<exists>sd. (if truthy (dict_get h ''@scores'') then Inr (dict_get h ''@scores'')
               else seq (py_get (PDict h) ''scores'') (\<lambda>s2. Inr (py_or s2 (PDict []))))
              = Inr (PDict sd)
          \<and> scores_source h = PDict sd"
    using assms by (auto simp: sub_ok_def py_or_def scores_source_def is_dict_iff)
  then obtain sd where sd:
    "(if truthy (dict_get h ''@scores'') then Inr (dict_get h ''@scores'')
      else seq (py_get (PDict h) ''scores'') (\<lambda>s2. Inr (py_or s2 (PDict []))))
     = Inr (PDict sd)"
    "scores_source h = PDict sd"
    by blast
  show ?thesis
    unfolding extract_hit_def Let_def by (simp add: rd sd emitted_def)
qed

lemma extract_all_Inr_iff:
  "extract_all hs = Inr out \<longleftrightarrow> list_all2 (\<lambda>h rec. extract_hit h = Inr rec) hs out"
  by (induction hs arbitrary: out) (auto simp: seq_Inr_iff list_all2_Cons1)

lemma extract_all_shaped: "list_all hit_shaped hs \<Longrightarrow> \<exists>out. extract_all hs = Inr out"
proof (induction hs)
  case Nil
  then show ?case by simp
next
  case (Cons h hs)
  then obtain out where out: "extract_all hs = Inr out" by auto
  from Cons.prems have "hit_shaped h" by simp
  then obtain kvs where "h = PDict kvs" by (cases h) auto
  with \<open>hit_shaped h\<close> have "\<exists>x. extract_hit h = Inr x"
    using extract_hit_shaped by blast
  with out show ?case by auto
qed

subsection \<open>What \<open>run_search\<close> returns\<close>

lemma run_search_parsed:
  assumes "loads_if_str lib raw = Inr (PDict d)" and "dict_get d ''results'' = PList hs"
  shows "run_search lib (raw # rest) = extract_all hs"
proof -
  have "py_or (PList hs) (PList []) = PList hs"
    by (cases hs) (simp_all add: py_or_def)
  with assms show ?thesis
    by (simp add: run_search_def py_or_dict_empty)
qed

lemma run_search_no_results:
  assumes "loads_if_str lib raw = Inr data" and "sub_ok data"
    and "\<not> truthy (field data ''results'')"
  shows "run_search lib (raw # rest) = Inr []"
proof -
  have get: "py_get (py_or data (PDict [])) ''results'' = Inr (field data ''results'')"
    using assms(2) by (cases data) (simp_all add: sub_ok_def py_or_def dict_get_def)
  have "py_or (field data ''results'') (PList []) = PList []"
    using assms(3) by (simp add: py_or_def)
  with get assms(1) show ?thesis
    by (simp add: run_search_def)
qed

section \<open>The search-hit normalizer\<close>

text \<open>
  C2, as the code has it. When the raw payload is a string that \<^verbatim>\<open>json.loads\<close> rejects,
  \<^verbatim>\<open>run_search\<close> has no handler of its own: the decoder's exception leaves the function
  and reaches the caller, and no list of hits is returned.
\<close>

theorem run_search_decode_error:
  "json_loads lib s = Inl e \<Longrightarrow> run_search lib (PStr s # rest) = Inl e"
  by (simp add: run_search_def)

theorem run_search_decode_error_witness:
  "json_loads sample_lib ''not json''
     = Inl (JSONDecodeError ''Expecting value: line 1 column 1 (char 0)'') \<and>
   run_search sample_lib [PStr ''not json'']
     = Inl (JSONDecodeError ''Expecting value: line 1 column 1 (char 0)'')"
  using run_search_decode_error
    [of sample_lib "''not json''" "JSONDecodeError ''Expecting value: line 1 column 1 (char 0)''" "[]"]
  by (simp add: sample_lib_def sample_loads_def)

text \<open>
  C2 as stated fails: on the undecodable string \<^verbatim>\<open>not json\<close> the call does not produce
  the empty list of hits, it raises.
\<close>

theorem run_search_decode_error_counterexample:
  "run_search sample_lib [PStr ''not json''] \<noteq> Inr [] \<and>
   run_search sample_lib [PStr ''not json'']
     = Inl (JSONDecodeError ''Expecting value: line 1 column 1 (char 0)'')"
  by (simp add: run_search_def sample_lib_def sample_loads_def)

text \<open>
  C7. When the decoded payload is an object whose \<^verbatim>\<open>results\<close> is the list \<open>hs\<close>, every
  list that \<^verbatim>\<open>run_search\<close> returns has the length of \<open>hs\<close> and holds at each position the
  record extracted from the element at that position: one record per element, in the
  order of \<open>hs\<close>, nothing dropped, merged or moved. For mapping-shaped elements it does
  return.
\<close>

theorem run_search_order:
  assumes "loads_if_str lib raw = Inr (PDict d)" and "dict_get d ''results'' = PList hs"
  shows "(list_all hit_shaped hs \<longrightarrow> (\<exists>out. run_search lib (raw # rest) = Inr out)) \<and>
         (\<forall>out. run_search lib (raw # rest) = Inr out \<longrightarrow>
            length out = length hs \<and> (\<forall>i<length hs. extract_hit (hs ! i) = Inr (out ! i)))"
proof -
  have run: "run_search lib (raw # rest) = extract_all hs"
    using assms by (rule run_search_parsed)
  have "list_all hit_shaped hs \<longrightarrow> (\<exists>out. extract_all hs = Inr out)"
    by (simp add: extract_all_shaped)
  moreover have "\<forall>out. extract_all hs = Inr out \<longrightarrow>
      length out = length hs \<and> (\<forall>i<length hs. extract_hit (hs ! i) = Inr (out ! i))"
    by (simp add: extract_all_Inr_iff list_all2_conv_all_nth)
  ultimately show ?thesis
    unfolding run by blast
qed

theorem run_search_order_witness:
  "list_all hit_shaped example_hits \<and>
   (\<exists>out. run_search sample_lib [PDict [(''results'', PList example_hits)]] = Inr out \<and>
      length out = 3 \<and>
      extract_hit (example_hits ! 0) = Inr (out ! 0) \<and>
      extract_hit (example_hits ! 1) = Inr (out ! 1) \<and>
      extract_hit (example_hits ! 2) = Inr (out ! 2))"
proof -
  have shaped: "list_all hit_shaped example_hits"
    by (simp add: example_hits_def sub_ok_def dict_get_def)
  have len: "length example_hits = 3"
    by (simp add: example_hits_def)
  have 1: "loads_if_str sample_lib (PDict [(''results'', PList example_hits)])
             = Inr (PDict [(''results'', PList example_hits)])"
    by simp
  have 2: "dict_get [(''results'', PList example_hits)] ''results'' = PList example_hits"
    by (simp add: dict_get_def)
  from run_search_order [OF 1 2, of "[]"] shaped len show ?thesis
    by auto
qed

text \<open>
  C8, as the code has it. When the decoded payload is an object or a falsy value and its
  \<^verbatim>\<open>results\<close> is absent or falsy, \<^verbatim>\<open>run_search\<close> returns the empty list; when \<^verbatim>\<open>results\<close>
  is a list of mapping-shaped elements, \<^verbatim>\<open>run_search\<close> returns one record per element,
  whichever keys the elements have or lack.
\<close>

theorem run_search_total_on_shapes:
  assumes "loads_if_str lib raw = Inr data" and "sub_ok data"
  shows "(\<not> truthy (field data ''results'') \<longrightarrow> run_search lib (raw # rest) = Inr []) \<and>
         (\<forall>hs. field data ''results'' = PList hs \<and> list_all hit_shaped hs \<longrightarrow>
            (\<exists>out. run_search lib (raw # rest) = Inr out \<and> length out = length hs))"
proof (intro conjI allI impI)
  assume "\<not> truthy (field data ''results'')"
  with assms show "run_search lib (raw # rest) = Inr []"
    by (rule run_search_no_results)
next
  fix hs
  assume h: "field data ''results'' = PList hs \<and> list_all hit_shaped hs"
  then obtain d where d: "data = PDict d"
    by (cases data) auto
  with h assms have "run_search lib (raw # rest) = extract_all hs"
    by (simp add: run_search_parsed)
  moreover from h obtain out where "extract_all hs = Inr out"
    using extract_all_shaped by blast
  ultimately show "\<exists>out. run_search lib (raw # rest) = Inr out \<and> length out = length hs"
    by (auto simp: extract_all_Inr_iff dest: list_all2_lengthD)
qed

theorem run_search_total_on_shapes_witness:
  "loads_if_str sample_lib (PStr ''{}'') = Inr (PDict []) \<and> sub_ok (PDict []) \<and>
   \<not> truthy (field (PDict []) ''results'') \<and>
   run_search sample_lib [PStr ''{}''] = Inr [] \<and>
   sub_ok (PDict [(''results'', PList example_hits)]) \<and>
   list_all hit_shaped example_hits \<and>
   (\<exists>out. run_search sample_lib [PDict [(''results'', PList example_hits)]] = Inr out \<and>
      length out = length example_hits)"
proof -
  have 1: "loads_if_str sample_lib (PStr ''{}'') = Inr (PDict [])"
    by (simp add: sample_lib_def sample_loads_def)
  have 2: "sub_ok (PDict [])"
    by (simp add: sub_ok_def)
  have 3: "\<not> truthy (field (PDict []) ''results'')"
    by (simp add: dict_get_def)
  from run_search_total_on_shapes [OF 1 2, of "[]"] 3
  have 4: "run_search sample_lib [PStr ''{}''] = Inr []"
    by blast
  have 5: "loads_if_str sample_lib (PDict [(''results'', PList example_hits)])
             = Inr (PDict [(''results'', PList example_hits)])"
    by simp
  have 6: "sub_ok (PDict [(''results'', PList example_hits)])"
    by (simp add: sub_ok_def)
  have 7: "field (PDict [(''results'', PList example_hits)]) ''results'' = PList example_hits"
    by (simp add: dict_get_def)
  have 8: "list_all hit_shaped example_hits"
    by (simp add: example_hits_def sub_ok_def dict_get_def)
  from run_search_total_on_shapes [OF 5 6, of "[]"] 7 8
  have 9: "\<exists>out. run_search sample_lib [PDict [(''results'', PList example_hits)]] = Inr out \<and>
             length out = length example_hits"
    by blast
  from 1 2 3 4 6 8 9 show ?thesis
    by blast
qed

text \<open>
  C8 as stated fails twice: a \<^verbatim>\<open>results\<close> that is the number 5, not a sequence, makes the
  loop raise \<^verbatim>\<open>TypeError\<close>, and a \<^verbatim>\<open>results\<close> sequence whose element is the number 5 makes
  \<^verbatim>\<open>_extract_hit\<close> raise \<^verbatim>\<open>AttributeError\<close>.
\<close>

theorem run_search_total_counterexample:
  "run_search sample_lib [PDict [(''results'', PInt 5)]]
     = Inl (TypeError (apos @ ''int'' @ apos @ '' object is not iterable'')) \<and>
   run_search sample_lib [PDict [(''results'', PList [PInt 5])]]
     = Inl (no_attribute (PInt 5) ''get'')"
  by (simp add: run_search_def py_or_def dict_get_def extract_hit_def)

text \<open>
  C9, as the code has it. For a mapping-shaped element the six document fields are read
  from its \<^verbatim>\<open>row\<close> value when that value is truthy (present, not null and not empty) and
  from the element itself otherwise; the two scores are read from its \<^verbatim>\<open>@scores\<close> value
  when truthy, else from its \<^verbatim>\<open>scores\<close> value when truthy, else from an empty object.
\<close>

theorem extract_hit_sources:
  "hit_shaped (PDict h) \<Longrightarrow>
   extract_hit (PDict h) = Inr (emitted (row_source h) (scores_source h))"
  by (rule extract_hit_shaped)

theorem extract_hit_sources_witness:
  "hit_shaped (PDict wrapped_hit) \<and> extract_hit (PDict wrapped_hit) = Inr wrapped_record"
  using extract_hit_sources [of wrapped_hit]
  by (simp add: wrapped_hit_def wrapped_record_def sub_ok_def dict_get_def emitted_def
      row_source_def scores_source_def)

text \<open>
  C9 as stated fails: with a \<^verbatim>\<open>row\<close> key that is present but holds an empty object the
  claim reads \<^verbatim>\<open>DOC_ID\<close> from that object (nothing there), the code reads it from the
  element (7); with an empty \<^verbatim>\<open>@scores\<close> the claim reads no text score, the code reads
  the one under \<^verbatim>\<open>scores\<close>.
\<close>

theorem extract_hit_sources_counterexample:
  "field (row_if_present empty_row_hit) ''DOC_ID'' = PNone \<and>
   extract_hit (PDict empty_row_hit)
     = Inr (PDict [(''DOC_ID'', PInt 7), (''FILENAME'', PNone), (''RELATIVE_PATH'', PNone),
                   (''PERSON'', PNone), (''DOC_TYPE'', PNone), (''DOC_DATE'', PNone),
                   (''score_sem'', PNone), (''score_text'', PNone)]) \<and>
   field (scores_if_present empty_scores_hit) ''text_match'' = PNone \<and>
   extract_hit (PDict empty_scores_hit)
     = Inr (PDict [(''DOC_ID'', PNone), (''FILENAME'', PNone), (''RELATIVE_PATH'', PNone),
                   (''PERSON'', PNone), (''DOC_TYPE'', PNone), (''DOC_DATE'', PNone),
                   (''score_sem'', PNone), (''score_text'', PInt 1)])"
  by (simp add: empty_row_hit_def empty_scores_hit_def row_if_present_def scores_if_present_def
      extract_hit_def py_or_def dict_get_def)

text \<open>
  C10. Every record that \<^verbatim>\<open>_extract_hit\<close> returns, and so every record in a list that
  \<^verbatim>\<open>run_search\<close> returns, is a dict with exactly the keys \<^verbatim>\<open>DOC_ID\<close>, \<^verbatim>\<open>FILENAME\<close>,
  \<^verbatim>\<open>RELATIVE_PATH\<close>, \<^verbatim>\<open>PERSON\<close>, \<^verbatim>\<open>DOC_TYPE\<close>, \<^verbatim>\<open>DOC_DATE\<close>, \<^verbatim>\<open>score_sem\<close> and
  \<^verbatim>\<open>score_text\<close>, whatever keys the raw element had.
\<close>

theorem emitted_record_keys:
  "(extract_hit h = Inr out \<longrightarrow> has_hit_keys out) \<and>
   (run_search lib r = Inr outs \<longrightarrow> list_all has_hit_keys outs)"
proof (intro conjI impI)
  assume "run_search lib r = Inr outs"
  then show "list_all has_hit_keys outs"
    by (cases r) (auto simp: run_search_def seq_Inr_iff extract_all_has_keys)
qed (rule extract_hit_has_keys)

theorem emitted_record_keys_witness:
  "extract_hit (PDict wrapped_hit) = Inr wrapped_record \<and> has_hit_keys wrapped_record \<and>
   run_search sample_lib [PDict [(''results'', PList [PDict wrapped_hit])]] = Inr [wrapped_record] \<and>
   list_all has_hit_keys [wrapped_record]"
proof -
  have 1: "extract_hit (PDict wrapped_hit) = Inr wrapped_record"
    by (simp add: wrapped_hit_def wrapped_record_def extract_hit_def py_or_def dict_get_def)
  have 2: "run_search sample_lib [PDict [(''results'', PList [PDict wrapped_hit])]]
             = Inr [wrapped_record]"
    by (simp add: run_search_def py_or_def dict_get_def 1)
  from emitted_record_keys
    [of "PDict wrapped_hit" wrapped_record sample_lib
      "[PDict [(''results'', PList [PDict wrapped_hit])]]" "[wrapped_record]"] 1 2
  show ?thesis by simp
qed

section \<open>The local hit filter\<close>

lemma text_skips_typed:
  assumes lower: "\<And>s. (str_lower lib s = []) = (s = [])" and "str_or_none (dict_get h key)"
  shows "text_skips lib (PDict h) key crit
           = Inr (\<not> text_passes lib (active crit) (dict_get h key))"
proof (cases crit)
  case None
  then show ?thesis by simp
next
  case (Some wanted)
  show ?thesis
  proof (cases "wanted = []")
    case True
    with Some show ?thesis by simp
  next
    case False
    with lower have "str_lower lib wanted \<noteq> []" by simp
    moreover from lower have "str_lower lib [] = []" by simp
    ultimately show ?thesis
      using Some False assms(2)
      by (cases "dict_get h key") (auto simp: field_differs_def py_or_def)
  qed
qed

lemma to_date_typed:
  "str_or_none (dict_get h ''DOC_DATE'') \<Longrightarrow>
   to_date lib (dict_get h ''DOC_DATE'') = hit_date lib (PDict h)"
  by (cases "dict_get h ''DOC_DATE''") (auto simp: to_date_def hit_date_def)

lemma range_skips: "(if before_from f dd then True else after_to t dd) = (\<not> date_passes f t dd)"
  by (cases f; cases t; cases dd) auto

lemma date_skips_typed:
  assumes "str_or_none (dict_get h ''DOC_DATE'')"
  shows "date_skips lib (PDict h) f t = Inr (\<not> date_passes f t (hit_date lib (PDict h)))"
proof (cases "f = None \<and> t = None")
  case True
  then show ?thesis by simp
next
  case False
  then have "date_skips lib (PDict h) f t =
      Inr (if before_from f (to_date lib (dict_get h ''DOC_DATE'')) then True
           else after_to t (to_date lib (dict_get h ''DOC_DATE'')))"
    by (cases f; cases t) (simp_all add: Let_def)
  then show ?thesis
    by (simp only: to_date_typed [OF assms] range_skips)
qed

lemma skips_typed:
  assumes lower: "\<And>s. (str_lower lib s = []) = (s = [])" and "search_hit r"
  shows "skips lib r person doc_type d_from d_to
           = Inr (\<not> passes lib (active person) (active doc_type) d_from d_to r)"
proof -
  from assms(2) obtain h where r: "r = PDict h"
    by (cases r) auto
  with assms(2) have typed: "str_or_none (dict_get h ''PERSON'')"
    "str_or_none (dict_get h ''DOC_TYPE'')" "str_or_none (dict_get h ''DOC_DATE'')"
    by simp_all
  show ?thesis
    unfolding r skips_def passes_def
    by (simp add: text_skips_typed [OF lower] date_skips_typed typed)
qed

lemma filter_subseq:
  "filter_hits_locally lib rows person doc_type d_from d_to = Inr out \<Longrightarrow> subseq out rows"
  by (induction rows arbitrary: out) (auto simp: seq_Inr_iff)

lemma filter_inactive: "filter_hits_locally lib rows None None None None = Inr rows"
  by (induction rows) (simp_all add: skips_def)

lemma text_skips_returns:
  "str_or_none (dict_get h key) \<Longrightarrow> \<exists>b. text_skips lib (PDict h) key crit = Inr b"
  by (cases crit; cases "dict_get h key") (auto simp: field_differs_def py_or_def)

lemma date_skips_returns: "\<exists>b. date_skips lib (PDict h) f t = Inr b"
  by (cases f; cases t) (auto simp: Let_def)

lemma skips_returns:
  assumes "search_hit r"
  shows "\<exists>b. skips lib r person doc_type d_from d_to = Inr b"
proof -
  from assms obtain h where r: "r = PDict h"
    by (cases r) auto
  from assms r obtain b1 where b1: "text_skips lib (PDict h) ''PERSON'' person = Inr b1"
    using text_skips_returns [of h "''PERSON''" lib person] by auto
  from assms r obtain b2 where b2: "text_skips lib (PDict h) ''DOC_TYPE'' doc_type = Inr b2"
    using text_skips_returns [of h "''DOC_TYPE''" lib doc_type] by auto
  obtain b3 where b3: "date_skips lib (PDict h) d_from d_to = Inr b3"
    using date_skips_returns by blast
  show ?thesis
    unfolding r skips_def by (auto simp: b1 b2 b3)
qed

lemma filter_returns:
  "list_all search_hit rows \<Longrightarrow>
   \<exists>out. filter_hits_locally lib rows person doc_type d_from d_to = Inr out"
proof (induction rows)
  case Nil
  then show ?case by simp
next
  case (Cons r rows)
  then obtain out where "filter_hits_locally lib rows person doc_type d_from d_to = Inr out"
    by auto
  moreover from Cons.prems obtain b where "skips lib r person doc_type d_from d_to = Inr b"
    using skips_returns [of r lib person doc_type d_from d_to] by auto
  ultimately show ?case by simp
qed

text \<open>
  C3, as the code has it. Take a library whose \<^verbatim>\<open>lower\<close> maps the empty string, and only
  it, to the empty string (as \<^verbatim>\<open>str.lower\<close> does), and hits whose \<^verbatim>\<open>PERSON\<close>, \<^verbatim>\<open>DOC_TYPE\<close>
  and \<^verbatim>\<open>DOC_DATE\<close> are strings, null or absent. Then \<^verbatim>\<open>filter_hits_locally\<close> returns,
  in order, exactly the hits on which every active criterion passes, where a text
  criterion is active when it is neither \<^verbatim>\<open>None\<close> nor the empty string, and a date bound
  when it is not \<^verbatim>\<open>None\<close>: text by equality up to case (an absent field fails), the date
  by the first ten characters of \<^verbatim>\<open>DOC_DATE\<close> read as an ISO date within inclusive bounds
  (an absent or unparsable date fails when a bound is active, and is not looked at when
  none is).
\<close>

theorem filter_hits_locally_keeps_passing:
  assumes "\<And>s. (str_lower lib s = []) = (s = [])" and "list_all search_hit rows"
  shows "filter_hits_locally lib rows person doc_type d_from d_to
           = Inr (filter (passes lib (active person) (active doc_type) d_from d_to) rows)"
  using assms(2)
  by (induction rows) (simp_all add: skips_typed [OF assms(1)])

theorem filter_hits_locally_keeps_passing_witness:
  "(\<forall>s. (str_lower sample_lib s = []) = (s = [])) \<and>
   list_all search_hit [alice_hit, bob_hit, undated_hit] \<and>
   filter (passes sample_lib (active (Some ''ALICE'')) (active (Some [])) (Some (2025, 2, 15)) None)
     [alice_hit, bob_hit, undated_hit] = [alice_hit] \<and>
   filter_hits_locally sample_lib [alice_hit, bob_hit, undated_hit]
     (Some ''ALICE'') (Some []) (Some (2025, 2, 15)) None = Inr [alice_hit]"
proof -
  have low: "\<And>s. (str_lower sample_lib s = []) = (s = [])"
    by (simp add: sample_lib_def ascii_lower_def)
  have typed: "list_all search_hit [alice_hit, bob_hit, undated_hit]"
    by (simp add: alice_hit_def bob_hit_def undated_hit_def dict_get_def)
  have date: "iso_date ''2025-02-15'' = Inr (2025, 2, 15)"
    by (simp add: iso_date_def digit_def days_in_month_def leap_year_def)
  have alice: "passes sample_lib (Some ''ALICE'') None (Some (2025, 2, 15)) None alice_hit"
    by (simp add: passes_def alice_hit_def dict_get_def hit_date_def sample_lib_def
        ascii_lower_def lower_char_def date)
  have bob: "\<not> passes sample_lib (Some ''ALICE'') None (Some (2025, 2, 15)) None bob_hit"
    by (simp add: passes_def bob_hit_def dict_get_def sample_lib_def ascii_lower_def
        lower_char_def)
  have undated: "\<not> passes sample_lib (Some ''ALICE'') None (Some (2025, 2, 15)) None undated_hit"
    by (simp add: passes_def undated_hit_def dict_get_def hit_date_def)
  have kept: "filter (passes sample_lib (active (Some ''ALICE'')) (active (Some []))
                (Some (2025, 2, 15)) None) [alice_hit, bob_hit, undated_hit] = [alice_hit]"
    by (simp add: alice bob undated)
  from filter_hits_locally_keeps_passing [OF low typed, of "Some ''ALICE''" "Some []"
      "Some (2025, 2, 15)" None] kept
  have "filter_hits_locally sample_lib [alice_hit, bob_hit, undated_hit]
          (Some ''ALICE'') (Some []) (Some (2025, 2, 15)) None = Inr [alice_hit]"
    by simp
  with low typed kept show ?thesis by blast
qed

text \<open>
  C3 as stated fails: with \<^verbatim>\<open>person\<close> the empty string, which is not \<^verbatim>\<open>None\<close>, the
  criterion does not pass on the hit of Bob (his name is not empty), yet the hit is in
  the output.
\<close>

theorem filter_hits_locally_counterexample:
  "\<not> passes sample_lib (Some []) None None None bob_hit \<and>
   filter_hits_locally sample_lib [bob_hit] (Some []) None None None = Inr [bob_hit]"
  by (simp add: passes_def bob_hit_def dict_get_def sample_lib_def ascii_lower_def skips_def)

text \<open>
  C6. Every list that \<^verbatim>\<open>filter_hits_locally\<close> returns is a subsequence of its input, in
  the input's order; on hits of the data model it does return; and with all four
  criteria \<^verbatim>\<open>None\<close> it returns the input list as it is.
\<close>

theorem filter_hits_locally_subsequence:
  "(\<forall>out. filter_hits_locally lib rows person doc_type d_from d_to = Inr out \<longrightarrow>
      subseq out rows) \<and>
   (list_all search_hit rows \<longrightarrow>
      (\<exists>out. filter_hits_locally lib rows person doc_type d_from d_to = Inr out)) \<and>
   filter_hits_locally lib rows None None None None = Inr rows"
  by (simp add: filter_subseq filter_returns filter_inactive)

theorem filter_hits_locally_subsequence_witness:
  "filter_hits_locally sample_lib [alice_hit, bob_hit, undated_hit] None (Some ''invoice'') None None
     = Inr [alice_hit, bob_hit] \<and>
   subseq [alice_hit, bob_hit] [alice_hit, bob_hit, undated_hit] \<and>
   list_all search_hit [alice_hit, bob_hit, undated_hit] \<and>
   filter_hits_locally sample_lib [alice_hit, bob_hit, undated_hit] None None None None
     = Inr [alice_hit, bob_hit, undated_hit]"
proof -
  have run: "filter_hits_locally sample_lib [alice_hit, bob_hit, undated_hit]
               None (Some ''invoice'') None None = Inr [alice_hit, bob_hit]"
    by (simp add: skips_def field_differs_def py_or_def alice_hit_def bob_hit_def
        undated_hit_def dict_get_def sample_lib_def ascii_lower_def lower_char_def)
  have typed: "list_all search_hit [alice_hit, bob_hit, undated_hit]"
    by (simp add: alice_hit_def bob_hit_def undated_hit_def dict_get_def)
  from filter_hits_locally_subsequence [of sample_lib "[alice_hit, bob_hit, undated_hit]"
      None "Some ''invoice''" None None] run typed
  show ?thesis by simp
qed

section \<open>The agent response extractor\<close>

lemma scan_find:
  "scan ms = (case find has_content ms of None \<Rightarrow> None | Some m \<Rightarrow> Some (field m ''content''))"
proof (induction ms)
  case Nil
  then show ?case by simp
next
  case (Cons m ms)
  then show ?case by (cases m) simp_all
qed

lemma message_content_eq:
  "message_content v = (if has_content v then Some (field v ''content'') else None)"
  by (cases v) simp_all

lemma from_dict_eq:
  "from_dict (PDict d) =
     (if has_content (dict_get d ''message'') then Some (field (dict_get d ''message'') ''content'')
      else last_content (candidates d))"
proof -
  have "py_or (dict_get d ''messages'') (py_or (dict_get d ''output'') (PList [])) = candidates d"
    by (simp add: py_or_def candidates_def)
  then show ?thesis
    by (cases "candidates d") (simp_all add: message_content_eq scan_find)
qed

text \<open>
  C1 fails on the code. For the payload whose \<^verbatim>\<open>message.content\<close> is a list of content
  blocks, \<^verbatim>\<open>agent_answer\<close> returns that list: the value returned is not a string, against
  the claim and against the function's own annotation \<^verbatim>\<open>-> str\<close>.
\<close>

theorem agent_answer_returns_block_list:
  "agent_answer lib (Inr [block_message]) = block_content \<and>
   \<not> is_str (agent_answer lib (Inr [block_message]))"
  by (simp add: agent_answer_def agent_try_def block_message_def block_content_def dict_get_def)

text \<open>
  C4, as the code has it. When the decoded payload is an object: if its \<^verbatim>\<open>message\<close> is an
  object with non-empty \<^verbatim>\<open>content\<close>, that content is returned; otherwise the candidate is
  the \<^verbatim>\<open>messages\<close> value when it is present and non-empty, else the \<^verbatim>\<open>output\<close> value, and
  when it is a list the content of the last element that is an object with non-empty
  content is returned; when there is none, the answer is the fallback text. For the
  three turns with contents A, empty and B the answer is B.
\<close>

theorem agent_answer_rules:
  assumes "loads_if_str lib obj = Inr (PDict d)"
  shows "agent_answer lib (Inr (obj # rest)) =
           (if has_content (dict_get d ''message'') then field (dict_get d ''message'') ''content''
            else case last_content (candidates d) of
                   Some c \<Rightarrow> c
                 | None \<Rightarrow> fallback lib (PDict d)) \<and>
         agent_answer lib (Inr [PDict three_turns]) = PStr ''B''"
proof
  have "agent_try lib (Inr (obj # rest)) =
          (case from_dict (PDict d) of
             Some c \<Rightarrow> Inr c
           | None \<Rightarrow> seq (json_dumps lib (PDict d)) (\<lambda>s. Inr (PStr s)))"
    using assms by (simp add: agent_try_def del: from_dict.simps)
  then show "agent_answer lib (Inr (obj # rest)) =
           (if has_content (dict_get d ''message'') then field (dict_get d ''message'') ''content''
            else case last_content (candidates d) of
                   Some c \<Rightarrow> c
                 | None \<Rightarrow> fallback lib (PDict d))"
    unfolding agent_answer_def from_dict_eq fallback_def
    by (cases "json_dumps lib (PDict d)") (simp_all split: option.split)
  show "agent_answer lib (Inr [PDict three_turns]) = PStr ''B''"
    by (simp add: agent_answer_def agent_try_def three_turns_def py_or_def dict_get_def)
qed

theorem agent_answer_rules_witness:
  "loads_if_str sample_lib (PDict three_turns) = Inr (PDict three_turns) \<and>
   \<not> has_content (dict_get three_turns ''message'') \<and>
   last_content (candidates three_turns) = Some (PStr ''B'') \<and>
   agent_answer sample_lib (Inr [PDict three_turns]) = PStr ''B''"
proof -
  have 1: "loads_if_str sample_lib (PDict three_turns) = Inr (PDict three_turns)"
    by simp
  have 2: "\<not> has_content (dict_get three_turns ''message'')"
    by (simp add: three_turns_def dict_get_def)
  have 3: "last_content (candidates three_turns) = Some (PStr ''B'')"
    by (simp add: three_turns_def candidates_def dict_get_def)
  from agent_answer_rules [OF 1, of "[]"] 2 3
  have "agent_answer sample_lib (Inr [PDict three_turns]) = PStr ''B''"
    by simp
  with 1 2 3 show ?thesis by simp
qed

text \<open>
  C4 as stated fails: when \<^verbatim>\<open>messages\<close> is present but empty and \<^verbatim>\<open>output\<close> holds a turn
  with content X, taking \<^verbatim>\<open>messages\<close> because it is present finds no content, while the
  code goes on to \<^verbatim>\<open>output\<close> and returns X.
\<close>

theorem agent_answer_rules_counterexample:
  "\<not> has_content (dict_get empty_messages ''message'') \<and>
   last_content (candidates_if_present empty_messages) = None \<and>
   agent_answer sample_lib (Inr [PDict empty_messages]) = PStr ''X''"
  by (simp add: agent_answer_def agent_try_def empty_messages_def py_or_def dict_get_def
      candidates_if_present_def)

text \<open>
  C5, as the code has it. When the payload is a string that \<^verbatim>\<open>json.loads\<close> rejects, the
  exception is caught by the handler of \<^verbatim>\<open>agent_answer\<close>, and the answer is the text
  \<^verbatim>\<open>Agent call failed: \<close> followed by the decoder's message.
\<close>

theorem agent_answer_decode_error:
  "json_loads lib s = Inl e \<Longrightarrow>
   agent_answer lib (Inr (PStr s # rest)) = PStr (''Agent call failed: '' @ exc_text e)"
  by (simp add: agent_answer_def agent_try_def)

theorem agent_answer_decode_error_witness:
  "json_loads sample_lib ''not json''
     = Inl (JSONDecodeError ''Expecting value: line 1 column 1 (char 0)'') \<and>
   agent_answer sample_lib (Inr [PStr ''not json''])
     = PStr ''Agent call failed: Expecting value: line 1 column 1 (char 0)''"
  using agent_answer_decode_error
    [of sample_lib "''not json''" "JSONDecodeError ''Expecting value: line 1 column 1 (char 0)''" "[]"]
  by (simp add: sample_lib_def sample_loads_def)

text \<open>
  C5 as stated fails: on the undecodable string \<^verbatim>\<open>not json\<close> the answer is the failure
  text, not the value serialized by the fallback rule.
\<close>

theorem agent_answer_decode_error_counterexample:
  "fallback sample_lib (PStr ''not json'') = PStr ([CHR 0x22] @ ''not json'' @ [CHR 0x22]) \<and>
   agent_answer sample_lib (Inr [PStr ''not json''])
     = PStr ''Agent call failed: Expecting value: line 1 column 1 (char 0)'' \<and>
   agent_answer sample_lib (Inr [PStr ''not json'']) \<noteq> fallback sample_lib (PStr ''not json'')"
  by (simp add: agent_answer_def agent_try_def fallback_def sample_lib_def sample_loads_def
      sample_dumps_def)

end
